theory Spec2Isabelle
  imports Complex_Main
begin

section \<open>Cells, text and exceptions\<close>

text \<open>
  The program is \<^verbatim>\<open>src/report_generator.py\<close>. Its core is two functions,
  \<^verbatim>\<open>load_and_clean_excel\<close> and \<^verbatim>\<open>compute_statistics\<close>, both written as chains of
  pandas calls on data frames. The embedding follows those chains call by call: each pandas
  call becomes one HOL function on the cells of a row, on a column, or on the list of rows.
  The pandas calls have the meaning pandas 1 and 2 give them on columns of Python objects.

  A cell of a sheet as \<^verbatim>\<open>pd.read_excel\<close> hands it over is a Python object: a string, an
  integer, a float, a boolean or the float NaN of an empty cell (the numbers of a column
  that has an empty cell are floats). \<^verbatim>\<open>pd.NA\<close> is the value the cleaning step writes.
  Floats are idealised as real numbers, with NaN a constructor of its own, so a mean or a
  correlation is the exact quotient and not its rounding; text is ASCII (bytes above 127
  have no case and are no white space here).
\<close>

datatype cell = CStr string | CInt int | CFloat real | CBool bool | CNaN | CNA

text \<open>
  The exceptions of the pipeline. \<open>TypeError\<close> is what \<^verbatim>\<open>bool(pd.NA)\<close> raises,
  \<open>ValueError\<close> what \<^verbatim>\<open>pd.concat([])\<close> raises. \<open>InsufficientDataError\<close> is the name
  the specification uses; no statement of the source raises it.
\<close>

datatype error = TypeError | ValueError | InsufficientDataError

text \<open>\<^verbatim>\<open>pd.isna\<close>: NaN and \<^verbatim>\<open>pd.NA\<close> are the missing values.\<close>

fun isna :: "cell \<Rightarrow> bool" where
  "isna CNaN = True"
| "isna CNA = True"
| "isna _ = False"

subsection \<open>Python's string methods\<close>

text \<open>\<^verbatim>\<open>str.isspace\<close> on ASCII: tab, newline, vertical tab, form feed, carriage return,
  the four separators 0x1C to 0x1F, and the space.\<close>

definition isspace :: "char \<Rightarrow> bool" where
  "isspace c = (c \<in> set [CHR 0x09, CHR 0x0A, CHR 0x0B, CHR 0x0C, CHR 0x0D,
                          CHR 0x1C, CHR 0x1D, CHR 0x1E, CHR 0x1F, CHR 0x20])"

text \<open>\<^verbatim>\<open>str.strip()\<close>: white space is removed at both ends.\<close>

definition strip :: "string \<Rightarrow> string" where
  "strip s = rev (dropWhile isspace (rev (dropWhile isspace s)))"

text \<open>\<^verbatim>\<open>str.upper()\<close> on ASCII.\<close>

definition upper_char :: "char \<Rightarrow> char" where
  "upper_char c =
     (case map_of (zip ''abcdefghijklmnopqrstuvwxyz'' ''ABCDEFGHIJKLMNOPQRSTUVWXYZ'') c of
        Some u \<Rightarrow> u
      | None \<Rightarrow> c)"

definition upper :: "string \<Rightarrow> string" where
  "upper s = map upper_char s"

text \<open>The class \<^verbatim>\<open>\d\<close> of the regular expression, on ASCII.\<close>

definition isdigit :: "char \<Rightarrow> bool" where
  "isdigit c = (c \<in> set ''0123456789'')"

definition digit_val :: "char \<Rightarrow> nat" where
  "digit_val c = of_char c - 48"

definition digit_char :: "nat \<Rightarrow> char" where
  "digit_char d = ''0123456789'' ! d"

text \<open>\<^verbatim>\<open>str(n)\<close> for a Python integer: decimal digits, a minus sign before a negative one.\<close>

fun str_nat :: "nat \<Rightarrow> string" where
  "str_nat n = (if n < 10 then [digit_char n] else str_nat (n div 10) @ [digit_char (n mod 10)])"

declare str_nat.simps [simp del]

definition str_int :: "int \<Rightarrow> string" where
  "str_int i = (if i < 0 then CHR ''-'' # str_nat (nat (- i)) else str_nat (nat i))"

text \<open>
  \<^verbatim>\<open>Series.astype(str)\<close> on one cell: Python's \<^verbatim>\<open>str\<close> of the object. The text of a float
  is produced by the interpreter's shortest round-trip formatting, which is no code of this
  repository: it is the parameter \<open>float_str\<close>.
\<close>

fun astype_str :: "(real \<Rightarrow> string) \<Rightarrow> cell \<Rightarrow> string" where
  "astype_str float_str (CStr s) = s"
| "astype_str float_str (CInt i) = str_int i"
| "astype_str float_str (CFloat x) = float_str x"
| "astype_str float_str (CBool b) = (if b then ''True'' else ''False'')"
| "astype_str float_str CNaN = ''nan''"
| "astype_str float_str CNA = ''<NA>''"

section \<open>The loader: \<^verbatim>\<open>load_and_clean_excel\<close>\<close>

text \<open>
  \<^verbatim>\<open>df.replace(["Waived", "N/A", "NA", ""], pd.NA)\<close>: a cell equal to one of the four
  strings becomes \<^verbatim>\<open>pd.NA\<close>, in every column of the frame.
\<close>

definition replace :: "cell \<Rightarrow> cell" where
  "replace c = (if c \<in> set [CStr ''Waived'', CStr ''N/A'', CStr ''NA'', CStr ''''] then CNA else c)"

text \<open>
  \<^verbatim>\<open>.str.extract(r'(\d+\.?\d*)', expand=False)\<close>: the group of the leftmost match, NaN
  when nothing matches. A match starts at the first digit of the text; the three greedy
  parts then take every digit that follows, a point if one comes next, and every digit after
  the point. No part can fail once a digit is found, so the matcher never backtracks.
\<close>

definition str_extract :: "string \<Rightarrow> string option" where
  "str_extract s =
     (let t = dropWhile (\<lambda>c. \<not> isdigit c) s in
      if t = [] then None
      else
        let ip = takeWhile isdigit t; r = dropWhile isdigit t in
        (case r of
           [] \<Rightarrow> Some ip
         | c # r' \<Rightarrow> if c = CHR ''.'' then Some (ip @ [c] @ takeWhile isdigit r') else Some ip))"

text \<open>The number a string of decimal digits writes; the empty string gives 0.\<close>

definition nat_of_digits :: "string \<Rightarrow> nat" where
  "nat_of_digits ds = foldl (\<lambda>a c. 10 * a + digit_val c) 0 ds"

text \<open>
  \<^verbatim>\<open>pd.to_numeric(..., errors="coerce")\<close> on one element: NaN stays NaN, a numeral is
  parsed, any other text becomes NaN. The numerals read here are the unsigned decimals
  (digits, then possibly a point and digits), the only texts \<open>str_extract\<close> produces; the
  signed and exponent forms pandas also reads never reach this call in the program.
\<close>

definition to_numeric :: "string option \<Rightarrow> real option" where
  "to_numeric e =
     (case e of
        None \<Rightarrow> None
      | Some s \<Rightarrow>
          (let ip = takeWhile isdigit s; r = dropWhile isdigit s in
           if ip = [] then None
           else
             (case r of
                [] \<Rightarrow> Some (real (nat_of_digits ip))
              | c # fp \<Rightarrow>
                  if c = CHR ''.'' \<and> list_all isdigit fp
                  then Some (real (nat_of_digits ip) + real (nat_of_digits fp) / 10 ^ length fp)
                  else None)))"

text \<open>The two statements of the loop over \<^verbatim>\<open>numeric_cols\<close>, on one cell.\<close>

definition coerce_numeric :: "(real \<Rightarrow> string) \<Rightarrow> cell \<Rightarrow> real option" where
  "coerce_numeric float_str c = to_numeric (str_extract (astype_str float_str c))"

text \<open>
  \<^verbatim>\<open>.astype(bool)\<close> on a cell of an object column: the truth value of the Python object.
  NaN is a non-zero float and so true; \<^verbatim>\<open>pd.NA\<close> has no truth value and raises.
\<close>

fun astype_bool :: "cell \<Rightarrow> error + bool" where
  "astype_bool (CStr s) = Inr (s \<noteq> [])"
| "astype_bool (CInt i) = Inr (i \<noteq> 0)"
| "astype_bool (CFloat x) = Inr (x \<noteq> 0)"
| "astype_bool (CBool b) = Inr b"
| "astype_bool CNaN = Inr True"
| "astype_bool CNA = Inl TypeError"

text \<open>\<^verbatim>\<open>.astype(str).str.strip().str.upper()\<close> and then \<^verbatim>\<open>.map({"Y": True, "N": False})\<close>:
  a key that is not in the dictionary maps to NaN.\<close>

definition map_passed :: "(real \<Rightarrow> string) \<Rightarrow> cell \<Rightarrow> bool option" where
  "map_passed float_str c =
     map_of [(''Y'', True), (''N'', False)] (upper (strip (astype_str float_str c)))"

subsection \<open>Rows\<close>

text \<open>
  A row of a sheet as read, with the columns the program names, and a row of the frame the
  loader returns. A sheet that lacks one of the columns is no input of this model.
\<close>

record sheet_row =
  Math_cell :: cell
  English_cell :: cell
  Science_cell :: cell
  History_cell :: cell
  Attendance_cell :: cell
  ProjectScore_cell :: cell
  IncomeStudent_cell :: cell
  Passed_cell :: cell
  Cohort_cell :: cell

record row =
  Track :: cell
  Math :: "real option"
  English :: "real option"
  Science :: "real option"
  History :: "real option"
  Attendance :: "real option"
  ProjectScore :: "real option"
  IncomeStudent :: bool
  Passed :: "bool option"
  Cohort :: cell

text \<open>
  The body of the loop over the sheets, on one row. The statements run in the order of the
  source: the sheet's name is written to \<open>Track\<close>, then \<open>replace\<close> goes over every column
  (the new \<open>Track\<close> column too), then the six numeric columns, the income flag and the
  pass/fail column are converted. \<^verbatim>\<open>astype(bool)\<close> is the one call that can raise.
\<close>

definition clean_row :: "(real \<Rightarrow> string) \<Rightarrow> string \<Rightarrow> sheet_row \<Rightarrow> error + row" where
  "clean_row float_str track_name r =
     (case astype_bool (replace (IncomeStudent_cell r)) of
        Inl e \<Rightarrow> Inl e
      | Inr income \<Rightarrow>
          Inr \<lparr>Track = replace (CStr track_name),
               Math = coerce_numeric float_str (replace (Math_cell r)),
               English = coerce_numeric float_str (replace (English_cell r)),
               Science = coerce_numeric float_str (replace (Science_cell r)),
               History = coerce_numeric float_str (replace (History_cell r)),
               Attendance = coerce_numeric float_str (replace (Attendance_cell r)),
               ProjectScore = coerce_numeric float_str (replace (ProjectScore_cell r)),
               IncomeStudent = income,
               Passed = map_passed float_str (replace (Passed_cell r)),
               Cohort = replace (Cohort_cell r)\<rparr>)"

text \<open>A list of results is a list of values unless one of them is an exception; the
  first exception is the one raised.\<close>

fun collect :: "(error + 'a) list \<Rightarrow> error + 'a list" where
  "collect [] = Inr []"
| "collect (Inl e # xs) = Inl e"
| "collect (Inr v # xs) = (case collect xs of Inl e \<Rightarrow> Inl e | Inr vs \<Rightarrow> Inr (v # vs))"

definition clean_sheet :: "(real \<Rightarrow> string) \<Rightarrow> string \<times> sheet_row list \<Rightarrow> error + row list" where
  "clean_sheet float_str sheet = collect (map (clean_row float_str (fst sheet)) (snd sheet))"

text \<open>
  \<open>sheets\<close> is the dictionary \<^verbatim>\<open>auto_load_excel()\<close> returned, in its order: sheet name and
  rows. The cleaned sheets are appended to \<^verbatim>\<open>all_dfs\<close> and concatenated in that order;
  \<^verbatim>\<open>pd.concat\<close> of no frame raises \<open>ValueError\<close>.
\<close>

definition load_and_clean_excel ::
  "(real \<Rightarrow> string) \<Rightarrow> (string \<times> sheet_row list) list \<Rightarrow> error + row list" where
  "load_and_clean_excel float_str sheets =
     (case collect (map (clean_sheet float_str) sheets) of
        Inl e \<Rightarrow> Inl e
      | Inr all_dfs \<Rightarrow> if all_dfs = [] then Inl ValueError else Inr (concat all_dfs))"

section \<open>The aggregator: \<^verbatim>\<open>compute_statistics\<close>\<close>

text \<open>\<^verbatim>\<open>"count"\<close>: the number of cells of a column that are not missing.\<close>

definition count :: "cell list \<Rightarrow> nat" where
  "count col = length (filter (\<lambda>c. \<not> isna c) col)"

text \<open>\<^verbatim>\<open>"mean"\<close>: the missing values are skipped; the mean of no value is NaN.\<close>

definition mean :: "real option list \<Rightarrow> real option" where
  "mean col =
     (let vs = List.map_filter id col in
      if vs = [] then None else Some (sum_list vs / real (length vs)))"

text \<open>The pass/fail column under \<^verbatim>\<open>"mean"\<close>: \<open>True\<close> counts 1 and \<open>False\<close> counts 0.\<close>

definition passed_num :: "bool option \<Rightarrow> real option" where
  "passed_num p = map_option (\<lambda>b. if b then 1 else 0) p"

text \<open>
  \<^verbatim>\<open>df.groupby(key)\<close>: the rows that carry each key, in their order; a row whose key is
  missing is in no group (\<^verbatim>\<open>dropna=True\<close>). A grouped table is a finite map from the key
  to the group's entry; the order in which pandas lists the keys is not modelled.
\<close>

definition notna_key :: "cell \<Rightarrow> cell option" where
  "notna_key c = (if isna c then None else Some c)"

definition groupby :: "('r \<Rightarrow> 'k option) \<Rightarrow> 'r list \<Rightarrow> 'k \<Rightarrow> 'r list option" where
  "groupby key df k =
     (let g = filter (\<lambda>r. key r = Some k) df in if g = [] then None else Some g)"

record group_stats =
  Students :: nat
  MathAvg :: "real option"
  EnglishAvg :: "real option"
  ScienceAvg :: "real option"
  HistoryAvg :: "real option"
  AttendanceAvg :: "real option"
  ProjectAvg :: "real option"
  PassRate :: "real option"

text \<open>The eight named aggregations, the same in the three grouped views.\<close>

definition agg :: "row list \<Rightarrow> group_stats" where
  "agg g =
     \<lparr>Students = count (map Track g),
      MathAvg = mean (map Math g),
      EnglishAvg = mean (map English g),
      ScienceAvg = mean (map Science g),
      HistoryAvg = mean (map History g),
      AttendanceAvg = mean (map Attendance g),
      ProjectAvg = mean (map ProjectScore g),
      PassRate = mean (map (passed_num \<circ> Passed) g)\<rparr>"

definition track_stats :: "row list \<Rightarrow> cell \<Rightarrow> group_stats option" where
  "track_stats df k = map_option agg (groupby (notna_key \<circ> Track) df k)"

definition cohort_stats :: "row list \<Rightarrow> cell \<Rightarrow> group_stats option" where
  "cohort_stats df k = map_option agg (groupby (notna_key \<circ> Cohort) df k)"

definition income_stats :: "row list \<Rightarrow> bool \<Rightarrow> group_stats option" where
  "income_stats df k = map_option agg (groupby (Some \<circ> IncomeStudent) df k)"

text \<open>\<^verbatim>\<open>df.groupby("Track")["History"].apply(list)\<close>\<close>

definition history_by_track :: "row list \<Rightarrow> cell \<Rightarrow> real option list option" where
  "history_by_track df k = map_option (map History) (groupby (notna_key \<circ> Track) df k)"

text \<open>\<^verbatim>\<open>df.groupby("Track")["Math"].mean()\<close>\<close>

definition math_comparison :: "row list \<Rightarrow> cell \<Rightarrow> real option option" where
  "math_comparison df k = map_option (\<lambda>g. mean (map Math g)) (groupby (notna_key \<circ> Track) df k)"

text \<open>\<^verbatim>\<open>Series.unique()\<close>: the distinct values in the order of their first appearance, a
  missing value among them.\<close>

fun unique :: "'a list \<Rightarrow> 'a list" where
  "unique [] = []"
| "unique (x # xs) = x # filter (\<lambda>y. y \<noteq> x) (unique xs)"

text \<open>
  \<^verbatim>\<open>df[df["Track"] == track][["Attendance (%)", "ProjectScore"]]\<close>: the two columns of the
  rows whose track equals \<open>track\<close>. The comparison \<^verbatim>\<open>==\<close> of a column with a scalar is
  false wherever either side is missing.
\<close>

definition eq_cell :: "cell \<Rightarrow> cell \<Rightarrow> bool" where
  "eq_cell a b = (\<not> isna a \<and> \<not> isna b \<and> a = b)"

definition subdf :: "row list \<Rightarrow> cell \<Rightarrow> (real option \<times> real option) list" where
  "subdf df track = map (\<lambda>r. (Attendance r, ProjectScore r)) (filter (\<lambda>r. eq_cell (Track r) track) df)"

text \<open>
  \<^verbatim>\<open>subdf.corr().iloc[0, 1]\<close>: Pearson's coefficient of the two columns over the rows in
  which both are present (\<^verbatim>\<open>min_periods=1\<close>). pandas divides the sum of the products of
  the deviations by the root of the product of the two sums of squared deviations, and gives
  NaN when fewer than \<^verbatim>\<open>min_periods\<close> rows are complete or when that divisor is 0.
\<close>

fun both :: "real option \<times> real option \<Rightarrow> (real \<times> real) option" where
  "both (Some a, Some p) = Some (a, p)"
| "both _ = None"

definition corr :: "(real option \<times> real option) list \<Rightarrow> real option" where
  "corr col =
     (let ps = List.map_filter both col;
          nobs = length ps in
      if nobs < 1 then None
      else
        let meanx = sum_list (map fst ps) / real nobs;
            meany = sum_list (map snd ps) / real nobs;
            ssqdm_x = sum_list (map (\<lambda>v. (fst v - meanx) ^ 2) ps);
            ssqdm_y = sum_list (map (\<lambda>v. (snd v - meany) ^ 2) ps);
            covxy = sum_list (map (\<lambda>v. (fst v - meanx) * (snd v - meany)) ps);
            divisor = sqrt (ssqdm_x * ssqdm_y)
        in if divisor \<noteq> 0 then Some (covxy / divisor) else None)"

text \<open>The loop that fills the dictionary \<^verbatim>\<open>corr_list\<close>, one entry for each value of
  \<^verbatim>\<open>df["Track"].unique()\<close>.\<close>

definition corr_list :: "row list \<Rightarrow> cell \<Rightarrow> real option option" where
  "corr_list df =
     fold (\<lambda>track m. m(track \<mapsto> corr (subdf df track))) (unique (map Track df)) Map.empty"

text \<open>\<^verbatim>\<open>df.agg({...: "mean"})\<close>: the seven means over all rows.\<close>

record global_row =
  Math_mean :: "real option"
  English_mean :: "real option"
  Science_mean :: "real option"
  History_mean :: "real option"
  Attendance_mean :: "real option"
  ProjectScore_mean :: "real option"
  Passed_mean :: "real option"

definition global_stats :: "row list \<Rightarrow> global_row" where
  "global_stats df =
     \<lparr>Math_mean = mean (map Math df),
      English_mean = mean (map English df),
      Science_mean = mean (map Science df),
      History_mean = mean (map History df),
      Attendance_mean = mean (map Attendance df),
      ProjectScore_mean = mean (map ProjectScore df),
      Passed_mean = mean (map (passed_num \<circ> Passed) df)\<rparr>"

text \<open>The dictionary \<^verbatim>\<open>stats\<close>, one field for each of its seven keys.\<close>

record stats =
  track_view :: "cell \<Rightarrow> group_stats option"
  cohort_view :: "cell \<Rightarrow> group_stats option"
  income_view :: "bool \<Rightarrow> group_stats option"
  history_by_track_view :: "cell \<Rightarrow> real option list option"
  math_comparison_view :: "cell \<Rightarrow> real option option"
  attendance_project_corr_view :: "cell \<Rightarrow> real option option"
  global_view :: global_row

text \<open>\<^verbatim>\<open>compute_statistics\<close> has no \<^verbatim>\<open>raise\<close> and no test of the frame's length: every
  call returns the dictionary.\<close>

definition compute_statistics :: "row list \<Rightarrow> error + stats" where
  "compute_statistics df =
     Inr \<lparr>track_view = track_stats df,
          cohort_view = cohort_stats df,
          income_view = income_stats df,
          history_by_track_view = history_by_track df,
          math_comparison_view = math_comparison df,
          attendance_project_corr_view = corr_list df,
          global_view = global_stats df\<rparr>"

section \<open>Example data\<close>

text \<open>A row of a sheet with cells of several kinds, and a cleaned frame of two tracks: track
  A with two complete rows, track B with no mark at all and one complete pair of attendance
  and project score.\<close>

definition example_row :: sheet_row where
  "example_row =
     \<lparr>Math_cell = CInt 80, English_cell = CStr ''75.5'', Science_cell = CStr ''Waived'',
      History_cell = CStr ''62 pts'', Attendance_cell = CStr ''91%'', ProjectScore_cell = CNaN,
      IncomeStudent_cell = CInt 0, Passed_cell = CStr '' y'', Cohort_cell = CStr ''2024''\<rparr>"

definition example_df :: "row list" where
  "example_df =
     [\<lparr>Track = CStr ''A'', Math = Some 80, English = Some 70, Science = Some 65,
       History = Some 60, Attendance = Some 90, ProjectScore = Some 50, IncomeStudent = False,
       Passed = Some True, Cohort = CStr ''X''\<rparr>,
      \<lparr>Track = CStr ''A'', Math = Some 90, English = None, Science = Some 75,
       History = None, Attendance = Some 80, ProjectScore = Some 70, IncomeStudent = True,
       Passed = Some False, Cohort = CStr ''Y''\<rparr>,
      \<lparr>Track = CStr ''B'', Math = None, English = None, Science = None,
       History = None, Attendance = Some 85, ProjectScore = Some 45, IncomeStudent = True,
       Passed = None, Cohort = CStr ''X''\<rparr>,
      \<lparr>Track = CStr ''B'', Math = None, English = None, Science = None,
       History = None, Attendance = None, ProjectScore = Some 40, IncomeStudent = True,
       Passed = None, Cohort = CNA\<rparr>]"

text \<open>A float formatter for the examples: Python writes the float 85.5 as \<^verbatim>\<open>85.5\<close> and
  the float 0.0 as \<^verbatim>\<open>0.0\<close>; the examples hold no other float.\<close>

definition example_float_str :: "real \<Rightarrow> string" where
  "example_float_str x = (if x = 85.5 then ''85.5'' else ''0.0'')"

section \<open>The specification's aggregates\<close>

text \<open>
  The mean and the pass rate in the specification's words, to compare the code with: the
  missing values are left out of the numerator and of the denominator, and a column with no
  value present has no mean.
\<close>

definition spec_mean :: "real option list \<Rightarrow> real option" where
  "spec_mean col =
     (if \<forall>v \<in> set col. v = None then None
      else Some (sum_list (map (\<lambda>v. case v of None \<Rightarrow> 0 | Some x \<Rightarrow> x) col) /
                 real (length (filter (\<lambda>v. v \<noteq> None) col))))"

definition spec_pass_rate :: "bool option list \<Rightarrow> real option" where
  "spec_pass_rate col =
     (if \<forall>p \<in> set col. p = None then None
      else Some (real (length (filter (\<lambda>p. p = Some True) col)) /
                 real (length (filter (\<lambda>p. p \<noteq> None) col))))"

text \<open>The entry \<open>st\<close> of a grouped view holds the specified pass rate and the six
  specified means of the rows \<open>g\<close>.\<close>

definition means_as_specified :: "group_stats \<Rightarrow> row list \<Rightarrow> bool" where
  "means_as_specified st g \<longleftrightarrow>
     PassRate st = spec_pass_rate (map Passed g) \<and>
     MathAvg st = spec_mean (map Math g) \<and>
     EnglishAvg st = spec_mean (map English g) \<and>
     ScienceAvg st = spec_mean (map Science g) \<and>
     HistoryAvg st = spec_mean (map History g) \<and>
     AttendanceAvg st = spec_mean (map Attendance g) \<and>
     ProjectAvg st = spec_mean (map ProjectScore g)"

text \<open>
  Pearson's coefficient in the specification's words: over the rows of a track in which
  attendance and project score are both present, the sum of the products of the deviations
  from the two means, divided by the product of the roots of the two sums of squared
  deviations. A column has zero variance when all its values are equal.
\<close>

definition complete_pairs :: "row list \<Rightarrow> cell \<Rightarrow> (real \<times> real) list" where
  "complete_pairs df g =
     List.map_filter (\<lambda>q. case (Attendance q, ProjectScore q) of
                             (Some a, Some p) \<Rightarrow> Some (a, p)
                           | _ \<Rightarrow> None)
       (filter (\<lambda>q. Track q = g) df)"

definition pearson :: "(real \<times> real) list \<Rightarrow> real" where
  "pearson ps =
     (let n = real (length ps);
          mx = sum_list (map fst ps) / n;
          my = sum_list (map snd ps) / n
      in sum_list (map (\<lambda>v. (fst v - mx) * (snd v - my)) ps) /
         (sqrt (sum_list (map (\<lambda>v. (fst v - mx) ^ 2) ps)) *
          sqrt (sum_list (map (\<lambda>v. (snd v - my) ^ 2) ps))))"

definition all_equal :: "real list \<Rightarrow> bool" where
  "all_equal xs = (\<forall>x \<in> set xs. x = hd xs)"

section \<open>Lemmas on the loader\<close>

lemmas eval_defs = load_and_clean_excel_def clean_sheet_def clean_row_def replace_def
  coerce_numeric_def str_extract_def to_numeric_def nat_of_digits_def digit_val_def isdigit_def
  str_int_def str_nat.simps digit_char_def map_passed_def strip_def isspace_def upper_def
  upper_char_def

lemma collect_Inr_D: "collect xs = Inr vs \<Longrightarrow> xs = map Inr vs"
  by (induction xs arbitrary: vs rule: collect.induct) (auto split: sum.splits)

lemma collect_member:
  assumes "collect (map f xs) = Inr vs" and "v \<in> set vs"
  shows "\<exists>x \<in> set xs. f x = Inr v"
proof -
  from assms(1) have "map f xs = map Inr vs" by (rule collect_Inr_D)
  then have "Inr v \<in> set (map f xs)" using assms(2) by simp
  then show ?thesis by auto
qed

text \<open>Every row of the loader's frame is the cleaned form of a row of one of the sheets.\<close>

lemma load_rows:
  assumes "load_and_clean_excel fs sheets = Inr df" and "r \<in> set df"
  shows "\<exists>sheet \<in> set sheets. \<exists>raw \<in> set (snd sheet). clean_row fs (fst sheet) raw = Inr r"
proof -
  from assms(1) obtain all_dfs where c: "collect (map (clean_sheet fs) sheets) = Inr all_dfs"
    and d: "df = concat all_dfs"
    by (auto simp: load_and_clean_excel_def split: sum.splits if_splits)
  from d assms(2) obtain g where g: "g \<in> set all_dfs" "r \<in> set g" by auto
  from collect_member [OF c g(1)] obtain sheet
    where s: "sheet \<in> set sheets" "clean_sheet fs sheet = Inr g"
    by auto
  from s(2) have "collect (map (clean_row fs (fst sheet)) (snd sheet)) = Inr g"
    by (simp add: clean_sheet_def)
  from collect_member [OF this g(2)] s(1) show ?thesis by auto
qed

lemma clean_row_fields:
  assumes "clean_row fs name raw = Inr r"
  shows "Track r = replace (CStr name)"
    and "Math r = coerce_numeric fs (replace (Math_cell raw))"
    and "English r = coerce_numeric fs (replace (English_cell raw))"
    and "Science r = coerce_numeric fs (replace (Science_cell raw))"
    and "History r = coerce_numeric fs (replace (History_cell raw))"
    and "Attendance r = coerce_numeric fs (replace (Attendance_cell raw))"
    and "ProjectScore r = coerce_numeric fs (replace (ProjectScore_cell raw))"
    and "astype_bool (replace (IncomeStudent_cell raw)) = Inr (IncomeStudent r)"
    and "Passed r = map_passed fs (replace (Passed_cell raw))"
    and "Cohort r = replace (Cohort_cell raw)"
  using assms by (auto simp: clean_row_def split: sum.splits)

text \<open>The track of a cleaned row is the sheet's name unless that name is one of the four
  tokens.\<close>

lemma track_is_label:
  assumes "clean_row fs name raw = Inr r"
    and "name \<notin> set [''Waived'', ''N/A'', ''NA'', '''']"
  shows "Track r = CStr name"
  using clean_row_fields(1) [OF assms(1)] assms(2) by (simp add: replace_def)

section \<open>Lemmas on the aggregator\<close>

lemma groupby_member:
  assumes "r \<in> set df" and "key r = Some k"
  shows "groupby key df k = Some (filter (\<lambda>q. key q = Some k) df)"
proof -
  from assms have "r \<in> set (filter (\<lambda>q. key q = Some k) df)" by simp
  then have "filter (\<lambda>q. key q = Some k) df \<noteq> []" by (metis empty_iff empty_set)
  then show ?thesis by (simp add: groupby_def)
qed

lemma groupby_Some_D:
  assumes "groupby key df k = Some g"
  shows "g = filter (\<lambda>q. key q = Some k) df \<and> g \<noteq> []"
  using assms by (auto simp: groupby_def Let_def split: if_splits)

lemma groupby_Nil: "groupby key [] k = None"
  by (simp add: groupby_def)

lemma set_unique: "set (unique xs) = set xs"
  by (induction xs) auto

lemma fold_upd:
  "fold (\<lambda>t m. m(t \<mapsto> f t)) ts m k = (if k \<in> set ts then Some (f k) else m k)"
  by (induction ts arbitrary: m) auto

lemma corr_list_eq:
  "corr_list df k = (if k \<in> Track ` set df then Some (corr (subdf df k)) else None)"
  by (simp add: corr_list_def fold_upd set_unique)

lemma mean_Nil: "mean [] = None"
  by (simp add: mean_def List.map_filter_simps)

lemma map_filter_id_Nil: "List.map_filter id col = [] \<longleftrightarrow> (\<forall>v \<in> set col. v = None)"
  by (induction col) (auto simp: List.map_filter_simps split: option.splits)

lemma length_map_filter_id:
  "length (List.map_filter id col) = length (filter (\<lambda>v. v \<noteq> None) col)"
  by (induction col) (auto simp: List.map_filter_simps split: option.splits)

lemma sum_map_filter_id:
  "sum_list (List.map_filter id col) = sum_list (map (\<lambda>v. case v of None \<Rightarrow> 0 | Some x \<Rightarrow> x) col)"
  by (induction col) (auto simp: List.map_filter_simps split: option.splits)

lemma mean_spec: "mean col = spec_mean col"
  by (simp add: mean_def spec_mean_def Let_def map_filter_id_Nil length_map_filter_id
      sum_map_filter_id)

lemma passed_num_sum:
  "sum_list (map (\<lambda>v. case v of None \<Rightarrow> 0 | Some x \<Rightarrow> x) (map passed_num col)) =
     real (length (filter (\<lambda>p. p = Some True) col))"
  by (induction col) (auto simp: passed_num_def split: option.splits)

lemma passed_num_length:
  "length (filter (\<lambda>v. v \<noteq> None) (map passed_num col)) = length (filter (\<lambda>p. p \<noteq> None) col)"
  by (induction col) (auto simp: passed_num_def)

lemma mean_passed_spec: "mean (map passed_num col) = spec_pass_rate col"
  unfolding mean_spec spec_mean_def spec_pass_rate_def passed_num_sum passed_num_length
  by (simp add: passed_num_def)

lemma agg_means_as_specified: "means_as_specified (agg g) g"
  using mean_passed_spec [of "map Passed g"]
  by (simp add: means_as_specified_def agg_def mean_spec)

lemma notna_key_Some: "notna_key c = Some k \<longleftrightarrow> c = k \<and> \<not> isna k"
  by (auto simp: notna_key_def)

lemma track_stats_Some:
  assumes "track_stats df k = Some st"
  shows "st = agg (filter (\<lambda>r. Track r = k) df) \<and> \<not> isna k \<and> k \<in> Track ` set df"
proof -
  from assms obtain g where g: "groupby (notna_key \<circ> Track) df k = Some g" "st = agg g"
    by (auto simp: track_stats_def)
  from groupby_Some_D [OF g(1)]
  have f: "g = filter (\<lambda>q. (notna_key \<circ> Track) q = Some k) df" "g \<noteq> []"
    by blast+
  from f obtain q where q: "q \<in> set df" "notna_key (Track q) = Some k"
    by (metis (mono_tags, lifting) comp_apply filter_False)
  then have nk: "\<not> isna k" "k \<in> Track ` set df" by (auto simp: notna_key_Some)
  then have "g = filter (\<lambda>r. Track r = k) df" using f(1) by (simp add: notna_key_Some)
  with g(2) nk show ?thesis by simp
qed

lemma cohort_stats_Some:
  assumes "cohort_stats df k = Some st"
  shows "st = agg (filter (\<lambda>r. Cohort r = k) df) \<and> \<not> isna k \<and> k \<in> Cohort ` set df"
proof -
  from assms obtain g where g: "groupby (notna_key \<circ> Cohort) df k = Some g" "st = agg g"
    by (auto simp: cohort_stats_def)
  from groupby_Some_D [OF g(1)]
  have f: "g = filter (\<lambda>q. (notna_key \<circ> Cohort) q = Some k) df" "g \<noteq> []"
    by blast+
  from f obtain q where q: "q \<in> set df" "notna_key (Cohort q) = Some k"
    by (metis (mono_tags, lifting) comp_apply filter_False)
  then have nk: "\<not> isna k" "k \<in> Cohort ` set df" by (auto simp: notna_key_Some)
  then have "g = filter (\<lambda>r. Cohort r = k) df" using f(1) by (simp add: notna_key_Some)
  with g(2) nk show ?thesis by simp
qed

lemma income_stats_Some:
  assumes "income_stats df k = Some st"
  shows "st = agg (filter (\<lambda>r. IncomeStudent r = k) df)"
proof -
  from assms obtain g where g: "groupby (Some \<circ> IncomeStudent) df k = Some g" "st = agg g"
    by (auto simp: income_stats_def)
  from groupby_Some_D [OF g(1)] have "g = filter (\<lambda>q. (Some \<circ> IncomeStudent) q = Some k) df"
    by simp
  with g(2) show ?thesis by simp
qed

lemma compute_statistics_views:
  assumes "compute_statistics df = Inr b"
  shows "track_view b = track_stats df" "cohort_view b = cohort_stats df"
    "income_view b = income_stats df" "history_by_track_view b = history_by_track df"
    "math_comparison_view b = math_comparison df"
    "attendance_project_corr_view b = corr_list df" "global_view b = global_stats df"
  using assms by (auto simp: compute_statistics_def)

lemma example_stats:
  "compute_statistics example_df =
     Inr \<lparr>track_view = track_stats example_df, cohort_view = cohort_stats example_df,
          income_view = income_stats example_df,
          history_by_track_view = history_by_track example_df,
          math_comparison_view = math_comparison example_df,
          attendance_project_corr_view = corr_list example_df,
          global_view = global_stats example_df\<rparr>"
  by (simp add: compute_statistics_def)

section \<open>Lemmas on text and numerals\<close>

lemma upper_char_Y: "upper_char c = CHR ''Y'' \<longleftrightarrow> c = CHR ''Y'' \<or> c = CHR ''y''"
  by (simp add: upper_char_def)

lemma upper_char_N: "upper_char c = CHR ''N'' \<longleftrightarrow> c = CHR ''N'' \<or> c = CHR ''n''"
  by (simp add: upper_char_def)

lemma upper_Y: "upper s = ''Y'' \<longleftrightarrow> s = ''Y'' \<or> s = ''y''"
  by (cases s) (auto simp: upper_def upper_char_Y)

lemma upper_N: "upper s = ''N'' \<longleftrightarrow> s = ''N'' \<or> s = ''n''"
  by (cases s) (auto simp: upper_def upper_char_N)

lemma map_passed_eq:
  "map_passed fs c =
     (if upper (strip (astype_str fs c)) = ''Y'' then Some True
      else if upper (strip (astype_str fs c)) = ''N'' then Some False else None)"
  by (simp add: map_passed_def)

lemma map_passed_na: "isna c \<Longrightarrow> map_passed fs c = None"
  by (cases c) (simp_all add: map_passed_def strip_def isspace_def upper_def upper_char_def)

lemma digit_char_props:
  assumes "d < 10"
  shows "isdigit (digit_char d)" and "digit_val (digit_char d) = d"
proof -
  from assms have "d = 0 \<or> d = 1 \<or> d = 2 \<or> d = 3 \<or> d = 4 \<or> d = 5 \<or> d = 6 \<or> d = 7 \<or> d = 8 \<or> d = 9"
    by arith
  then show "isdigit (digit_char d)" and "digit_val (digit_char d) = d"
    by (auto simp: digit_char_def isdigit_def digit_val_def)
qed

lemma nat_of_digits_snoc: "nat_of_digits (ds @ [c]) = 10 * nat_of_digits ds + digit_val c"
  by (simp add: nat_of_digits_def)

lemma str_nat_props:
  "str_nat n \<noteq> [] \<and> list_all isdigit (str_nat n) \<and> nat_of_digits (str_nat n) = n"
proof (induction n rule: str_nat.induct)
  case (1 n)
  show ?case
  proof (cases "n < 10")
    case True
    then show ?thesis
      using digit_char_props [of n]
      by (simp add: str_nat.simps [of n] nat_of_digits_def)
  next
    case False
    then have "n mod 10 < 10" by simp
    from digit_char_props [OF this] "1.IH" [OF False] False show ?thesis
      by (simp add: str_nat.simps [of n] nat_of_digits_snoc)
  qed
qed

lemma not_digit_point [simp]: "\<not> isdigit CHR ''.''" and not_digit_minus [simp]: "\<not> isdigit CHR ''-''"
  by (simp_all add: isdigit_def)

lemma str_extract_prefix:
  assumes "\<forall>ch \<in> set pre. \<not> isdigit ch"
  shows "str_extract (pre @ s) = str_extract s"
proof -
  from assms have "dropWhile (\<lambda>c. \<not> isdigit c) (pre @ s) = dropWhile (\<lambda>c. \<not> isdigit c) s"
    by (simp add: dropWhile_append2)
  then show ?thesis by (simp add: str_extract_def)
qed

lemma takeWhile_all: "list_all P xs \<Longrightarrow> takeWhile P (xs @ ys) = xs @ takeWhile P ys"
  by (induction xs) auto

lemma dropWhile_all: "list_all P xs \<Longrightarrow> dropWhile P (xs @ ys) = dropWhile P ys"
  by (induction xs) auto

lemma takeWhile_id: "list_all P xs \<Longrightarrow> takeWhile P xs = xs"
  by (induction xs) auto

lemma dropWhile_Nil: "list_all P xs \<Longrightarrow> dropWhile P xs = []"
  by (induction xs) auto

lemma str_extract_digits:
  assumes "ip \<noteq> []" and "list_all isdigit ip"
  shows "str_extract ip = Some ip"
    and "list_all isdigit fp \<Longrightarrow> str_extract (ip @ CHR ''.'' # fp) = Some (ip @ CHR ''.'' # fp)"
proof -
  from assms have hd: "isdigit (hd ip)" by (cases ip) auto
  then have d: "dropWhile (\<lambda>c. \<not> isdigit c) (ip @ ys) = ip @ ys" for ys
    using assms(1) by (cases ip) auto
  from d [of "[]"] assms show "str_extract ip = Some ip"
    by (simp add: str_extract_def takeWhile_id dropWhile_Nil)
  assume fp: "list_all isdigit fp"
  with d [of "CHR ''.'' # fp"] assms show "str_extract (ip @ CHR ''.'' # fp) = Some (ip @ CHR ''.'' # fp)"
    by (simp add: str_extract_def takeWhile_all dropWhile_all takeWhile_id)
qed

lemma to_numeric_digits:
  assumes "ip \<noteq> []" and "list_all isdigit ip"
  shows "to_numeric (Some ip) = Some (real (nat_of_digits ip))"
    and "list_all isdigit fp \<Longrightarrow> to_numeric (Some (ip @ CHR ''.'' # fp)) =
           Some (real (nat_of_digits ip) + real (nat_of_digits fp) / 10 ^ length fp)"
proof -
  from assms show "to_numeric (Some ip) = Some (real (nat_of_digits ip))"
    by (simp add: to_numeric_def takeWhile_id dropWhile_Nil)
  assume "list_all isdigit fp"
  with assms show "to_numeric (Some (ip @ CHR ''.'' # fp)) =
           Some (real (nat_of_digits ip) + real (nat_of_digits fp) / 10 ^ length fp)"
    by (simp add: to_numeric_def takeWhile_all dropWhile_all)
qed

lemma str_extract_shape:
  assumes "str_extract s = Some t"
  shows "\<exists>pre ip post. s = pre @ t @ post \<and> (\<forall>ch \<in> set pre. \<not> isdigit ch) \<and>
           ip \<noteq> [] \<and> list_all isdigit ip \<and>
           (t = ip \<or> (\<exists>fp. list_all isdigit fp \<and> t = ip @ CHR ''.'' # fp))"
proof -
  define pre where "pre = takeWhile (\<lambda>c. \<not> isdigit c) s"
  define u where "u = dropWhile (\<lambda>c. \<not> isdigit c) s"
  define ip where "ip = takeWhile isdigit u"
  define r where "r = dropWhile isdigit u"
  have s: "s = pre @ u" and u: "u = ip @ r"
    by (simp_all add: pre_def u_def ip_def r_def)
  have pre: "\<forall>ch \<in> set pre. \<not> isdigit ch"
    unfolding pre_def by (auto dest: set_takeWhileD)
  have ex: "str_extract s =
     (if u = [] then None
      else (case r of [] \<Rightarrow> Some ip
            | c # r' \<Rightarrow> if c = CHR ''.'' then Some (ip @ [c] @ takeWhile isdigit r') else Some ip))"
    unfolding r_def ip_def u_def str_extract_def Let_def by simp
  from assms ex have ne: "u \<noteq> []" by (cases "u = []") simp_all
  then have "isdigit (hd u)"
    unfolding u_def using hd_dropWhile [of "\<lambda>c. \<not> isdigit c" s] by simp
  with ne have ip: "ip \<noteq> []" unfolding ip_def by (cases u) simp_all
  have dig: "list_all isdigit ip"
    unfolding ip_def by (auto simp: list_all_iff dest: set_takeWhileD)
  show ?thesis
  proof (cases r)
    case Nil
    with assms ex ne have ti: "t = ip" by simp
    with s u Nil have "s = pre @ t @ []" by simp
    with pre ip dig ti show ?thesis by (intro exI [of _ pre] exI [of _ ip] exI [of _ "[]"]) simp
  next
    case (Cons c r')
    show ?thesis
    proof (cases "c = CHR ''.''")
      case False
      with assms ex ne Cons have ti: "t = ip" by simp
      with s u have "s = pre @ t @ r" by simp
      with pre ip dig ti show ?thesis by (intro exI [of _ pre] exI [of _ ip] exI [of _ r]) simp
    next
      case True
      define fp where "fp = takeWhile isdigit r'"
      from True assms ex ne Cons have tf: "t = ip @ CHR ''.'' # fp" by (simp add: fp_def)
      have fd: "list_all isdigit fp"
        unfolding fp_def by (auto simp: list_all_iff dest: set_takeWhileD)
      have "r' = fp @ dropWhile isdigit r'" by (simp add: fp_def)
      with s u Cons True tf have "s = pre @ t @ dropWhile isdigit r'" by simp
      moreover from fd tf have "\<exists>fp. list_all isdigit fp \<and> t = ip @ CHR ''.'' # fp" by blast
      ultimately show ?thesis
        using pre ip dig
        by (intro exI [of _ pre] exI [of _ ip] exI [of _ "dropWhile isdigit r'"]) simp
    qed
  qed
qed

lemma to_numeric_nonneg: "to_numeric e = Some v \<Longrightarrow> 0 \<le> v"
  by (auto simp: to_numeric_def Let_def split: option.splits if_splits list.splits)

lemma coerce_numeric_nonneg: "coerce_numeric fs c = Some v \<Longrightarrow> 0 \<le> v"
  unfolding coerce_numeric_def by (rule to_numeric_nonneg)

lemma str_extract_Nil:
  assumes "dropWhile (\<lambda>c. \<not> isdigit c) s = []"
  shows "str_extract s = None"
  unfolding str_extract_def Let_def assms by simp

lemma str_extract_nonNil:
  assumes "dropWhile (\<lambda>c. \<not> isdigit c) s \<noteq> []"
  shows "str_extract s \<noteq> None"
proof -
  define u where "u = dropWhile (\<lambda>c. \<not> isdigit c) s"
  have "str_extract s = (case dropWhile isdigit u of [] \<Rightarrow> Some (takeWhile isdigit u)
           | c # r' \<Rightarrow> if c = CHR ''.'' then Some (takeWhile isdigit u @ [c] @ takeWhile isdigit r')
               else Some (takeWhile isdigit u))"
    using assms unfolding str_extract_def Let_def u_def by (simp del: dropWhile_eq_Nil_conv)
  then show ?thesis by (cases "dropWhile isdigit u") simp_all
qed

lemma str_extract_None_iff: "str_extract s = None \<longleftrightarrow> (\<forall>ch \<in> set s. \<not> isdigit ch)"
proof (cases "dropWhile (\<lambda>c. \<not> isdigit c) s = []")
  case True
  from str_extract_Nil [OF True] True show ?thesis by simp
next
  case False
  from str_extract_nonNil [OF False] False show ?thesis by auto
qed

lemma str_extract_parses:
  assumes "str_extract s = Some t"
  shows "to_numeric (Some t) \<noteq> None"
proof -
  from str_extract_shape [OF assms] obtain ip where ip: "ip \<noteq> []" "list_all isdigit ip"
    "t = ip \<or> (\<exists>fp. list_all isdigit fp \<and> t = ip @ CHR ''.'' # fp)" by blast
  from ip(3) show ?thesis
  proof
    assume "t = ip"
    with to_numeric_digits(1) [OF ip(1,2)] show ?thesis by simp
  next
    assume "\<exists>fp. list_all isdigit fp \<and> t = ip @ CHR ''.'' # fp"
    then obtain fp where "list_all isdigit fp" "t = ip @ CHR ''.'' # fp" by blast
    with to_numeric_digits(2) [OF ip(1,2)] show ?thesis by simp
  qed
qed

lemma coerce_numeric_None_iff:
  "coerce_numeric fs c = None \<longleftrightarrow> (\<forall>ch \<in> set (astype_str fs c). \<not> isdigit ch)"
proof (cases "str_extract (astype_str fs c)")
  case None
  then have "coerce_numeric fs c = None" by (simp add: coerce_numeric_def to_numeric_def)
  with None show ?thesis by (simp add: str_extract_None_iff)
next
  case (Some t)
  from str_extract_parses [OF Some] Some have "coerce_numeric fs c \<noteq> None"
    by (simp add: coerce_numeric_def)
  moreover from Some have "\<not> (\<forall>ch \<in> set (astype_str fs c). \<not> isdigit ch)"
    using str_extract_None_iff [of "astype_str fs c"] by simp
  ultimately show ?thesis by blast
qed

lemma set_strip: "set (strip s) \<subseteq> set s"
proof -
  have "set (strip s) \<subseteq> set (rev (dropWhile isspace s))"
    unfolding strip_def by (auto dest: set_dropWhileD)
  also have "\<dots> \<subseteq> set s" by (auto dest: set_dropWhileD)
  finally show ?thesis .
qed

lemma set_str_int: "ch \<in> set (str_int i) \<Longrightarrow> isdigit ch \<or> ch = CHR ''-''"
  using str_nat_props [of "nat i"] str_nat_props [of "nat (- i)"]
  by (auto simp: str_int_def list_all_iff split: if_splits)

lemma map_passed_int: "map_passed fs (CInt i) = None"
proof -
  have "ch \<in> set (strip (str_int i)) \<Longrightarrow> ch \<noteq> CHR ''Y'' \<and> ch \<noteq> CHR ''y'' \<and> ch \<noteq> CHR ''N'' \<and> ch \<noteq> CHR ''n''" for ch
    using set_strip [of "str_int i"] set_str_int [of ch i] by (auto simp: isdigit_def)
  then have "strip (str_int i) \<notin> {''Y'', ''y'', ''N'', ''n''}" by fastforce
  then show ?thesis by (simp add: map_passed_eq upper_Y upper_N)
qed

lemma map_passed_bool: "map_passed fs (CBool b) = None"
  by (cases b) (simp_all add: map_passed_def strip_def isspace_def upper_def upper_char_def)

lemma replace_cases:
  "replace c = (if c = CStr ''Waived'' \<or> c = CStr ''N/A'' \<or> c = CStr ''NA'' \<or> c = CStr '''' then CNA else c)"
  by (simp add: replace_def)

lemma map_passed_str:
  "(map_passed fs (replace (CStr s)) = Some True \<longleftrightarrow> strip s = ''Y'' \<or> strip s = ''y'') \<and>
   (map_passed fs (replace (CStr s)) = Some False \<longleftrightarrow> strip s = ''N'' \<or> strip s = ''n'')"
proof (cases "replace (CStr s) = CNA")
  case True
  then have "s = ''Waived'' \<or> s = ''N/A'' \<or> s = ''NA'' \<or> s = ''''"
    by (simp add: replace_cases split: if_splits)
  then have "strip s \<notin> {''Y'', ''y'', ''N'', ''n''}"
    by (auto simp: strip_def isspace_def)
  with True show ?thesis by (simp add: map_passed_na)
next
  case False
  then have "replace (CStr s) = CStr s" by (simp add: replace_cases split: if_splits)
  then show ?thesis by (simp add: map_passed_eq upper_Y upper_N)
qed

lemma example_row_clean:
  "clean_row example_float_str ''A'' example_row =
     Inr \<lparr>Track = CStr ''A'', Math = Some 80, English = Some 75.5, Science = None,
          History = Some 62, Attendance = Some 91, ProjectScore = None, IncomeStudent = False,
          Passed = Some True, Cohort = CStr ''2024''\<rparr>"
  by (simp add: eval_defs example_row_def)

lemma coerce_numeric_digits:
  assumes "ip \<noteq> []" and "list_all isdigit ip"
  shows "astype_str fs c = ip \<Longrightarrow> coerce_numeric fs c = Some (real (nat_of_digits ip))"
    and "astype_str fs c = CHR ''-'' # ip \<Longrightarrow> coerce_numeric fs c = Some (real (nat_of_digits ip))"
    and "list_all isdigit fp \<Longrightarrow> astype_str fs c = ip @ CHR ''.'' # fp \<Longrightarrow>
           coerce_numeric fs c =
             Some (real (nat_of_digits ip) + real (nat_of_digits fp) / 10 ^ length fp)"
proof -
  show "astype_str fs c = ip \<Longrightarrow> coerce_numeric fs c = Some (real (nat_of_digits ip))"
    using str_extract_digits(1) [OF assms] to_numeric_digits(1) [OF assms]
    by (simp add: coerce_numeric_def)
  have "str_extract ([CHR ''-''] @ ip) = str_extract ip"
    by (rule str_extract_prefix) simp
  then show "astype_str fs c = CHR ''-'' # ip \<Longrightarrow>
      coerce_numeric fs c = Some (real (nat_of_digits ip))"
    using str_extract_digits(1) [OF assms] to_numeric_digits(1) [OF assms]
    by (simp add: coerce_numeric_def)
  show "list_all isdigit fp \<Longrightarrow> astype_str fs c = ip @ CHR ''.'' # fp \<Longrightarrow>
           coerce_numeric fs c =
             Some (real (nat_of_digits ip) + real (nat_of_digits fp) / 10 ^ length fp)"
    using str_extract_digits(2) [OF assms] to_numeric_digits(2) [OF assms]
    by (simp add: coerce_numeric_def)
qed

lemma coerce_numeric_int: "coerce_numeric fs (CInt n) = Some (\<bar>of_int n\<bar>)"
proof (cases "n < 0")
  case True
  from str_nat_props [of "nat (- n)"]
  have "coerce_numeric fs (CInt n) = Some (real (nat (- n)))"
    using coerce_numeric_digits(2) [of "str_nat (nat (- n))" fs "CInt n"] True
    by (simp add: str_int_def)
  with True show ?thesis by simp
next
  case False
  from str_nat_props [of "nat n"]
  have "coerce_numeric fs (CInt n) = Some (real (nat n))"
    using coerce_numeric_digits(1) [of "str_nat (nat n)" fs "CInt n"] False
    by (simp add: str_int_def)
  with False show ?thesis by simp
qed

lemma example_load:
  "load_and_clean_excel example_float_str [(''A'', [example_row])] =
     Inr [\<lparr>Track = CStr ''A'', Math = Some 80, English = Some 75.5, Science = None,
           History = Some 62, Attendance = Some 91, ProjectScore = None, IncomeStudent = False,
           Passed = Some True, Cohort = CStr ''2024''\<rparr>]"
  by (simp add: eval_defs example_row_def)

section \<open>Lemmas on the correlation\<close>

lemma sum_list_const:
  "\<forall>v \<in> set ps. f v = c \<Longrightarrow> sum_list (map f ps) = real (length ps) * (c::real)"
  by (induction ps) (auto simp: algebra_simps)

lemma ssqdm_zero_iff:
  fixes f :: "'a \<Rightarrow> real"
  assumes "ps \<noteq> []"
  shows "sum_list (map (\<lambda>v. (f v - sum_list (map f ps) / real (length ps)) ^ 2) ps) = 0
           \<longleftrightarrow> all_equal (map f ps)"
proof -
  define m where "m = sum_list (map f ps) / real (length ps)"
  have "sum_list (map (\<lambda>v. (f v - m) ^ 2) ps) = 0 \<longleftrightarrow>
          (\<forall>x \<in> set (map (\<lambda>v. (f v - m) ^ 2) ps). x = 0)"
    by (rule sum_list_nonneg_eq_0_iff) auto
  then have z: "sum_list (map (\<lambda>v. (f v - m) ^ 2) ps) = 0 \<longleftrightarrow> (\<forall>v \<in> set ps. f v = m)"
    by simp
  from assms have hd: "hd ps \<in> set ps" by simp
  have c: "all_equal (map f ps) \<longleftrightarrow> (\<forall>v \<in> set ps. f v = f (hd ps))"
    using assms by (simp add: all_equal_def hd_map)
  have "(\<forall>v \<in> set ps. f v = m) \<longleftrightarrow> (\<forall>v \<in> set ps. f v = f (hd ps))"
  proof
    assume "\<forall>v \<in> set ps. f v = m"
    with hd show "\<forall>v \<in> set ps. f v = f (hd ps)" by simp
  next
    assume a: "\<forall>v \<in> set ps. f v = f (hd ps)"
    from sum_list_const [OF a] assms have "m = f (hd ps)" by (simp add: m_def)
    with a show "\<forall>v \<in> set ps. f v = m" by simp
  qed
  with z c show ?thesis unfolding m_def by simp
qed

lemma all_equal_short: "length xs < 2 \<Longrightarrow> all_equal xs"
  by (cases xs) (auto simp: all_equal_def)

lemma corr_eq:
  "corr col =
     (let ps = List.map_filter both col in
      if length ps < 2 \<or> all_equal (map fst ps) \<or> all_equal (map snd ps) then None
      else Some (pearson ps))"
proof -
  define ps where "ps = List.map_filter both col"
  show ?thesis
  proof (cases "ps = []")
    case True
    then show ?thesis by (simp add: corr_def Let_def ps_def)
  next
    case False
    define sx where "sx = sum_list (map (\<lambda>v. (fst v - sum_list (map fst ps) / real (length ps)) ^ 2) ps)"
    define sy where "sy = sum_list (map (\<lambda>v. (snd v - sum_list (map snd ps) / real (length ps)) ^ 2) ps)"
    define cv where "cv = sum_list (map (\<lambda>v. (fst v - sum_list (map fst ps) / real (length ps)) *
        (snd v - sum_list (map snd ps) / real (length ps))) ps)"
    have x: "sx = 0 \<longleftrightarrow> all_equal (map fst ps)" unfolding sx_def by (rule ssqdm_zero_iff [OF False])
    have y: "sy = 0 \<longleftrightarrow> all_equal (map snd ps)" unfolding sy_def by (rule ssqdm_zero_iff [OF False])
    from False have n: "\<not> length ps < 1" by (cases ps) simp_all
    have c: "corr col = (if sqrt (sx * sy) \<noteq> 0 then Some (cv / sqrt (sx * sy)) else None)"
      using n unfolding corr_def Let_def ps_def [symmetric] sx_def sy_def cv_def by simp
    have p: "pearson ps = cv / (sqrt sx * sqrt sy)"
      unfolding pearson_def Let_def sx_def sy_def cv_def by simp
    have s: "length ps < 2 \<longrightarrow> all_equal (map fst ps)" by (simp add: all_equal_short)
    show ?thesis
      unfolding ps_def [symmetric] Let_def c p using x y s by (auto simp: real_sqrt_mult)
  qed
qed

lemma subdf_pairs:
  assumes "\<not> isna g"
  shows "List.map_filter both (subdf df g) = complete_pairs df g"
  using assms
  by (induction df)
     (auto simp: subdf_def complete_pairs_def List.map_filter_simps eq_cell_def
           split: option.splits)

lemma example_pairs:
  "complete_pairs example_df (CStr ''A'') = [(90, 50), (80, 70)]"
  "complete_pairs example_df (CStr ''B'') = [(85, 45)]"
  by (simp_all add: complete_pairs_def example_df_def List.map_filter_simps)

lemma sqrt_10000: "sqrt 50 * sqrt 200 = 100"
proof -
  have "sqrt 50 * sqrt 200 = sqrt (100 ^ 2)" by (simp add: real_sqrt_mult [symmetric])
  then show ?thesis by simp
qed

lemma example_pearson: "pearson [(90, 50), (80, 70)] = - 1"
  by (simp add: pearson_def sqrt_10000)

section \<open>The claims\<close>

text \<open>
  C1. The specification says that \<^verbatim>\<open>compute_statistics\<close> raises \<open>InsufficientDataError\<close>
  on a frame of no rows. The source has no such test: on the empty frame it returns the
  dictionary like on any other.
\<close>

theorem empty_frame_not_rejected: "compute_statistics [] \<noteq> Inl InsufficientDataError"
  by (simp add: compute_statistics_def)

text \<open>
  C1, as the code has it. \<^verbatim>\<open>compute_statistics\<close> returns the seven views for every frame,
  empty or not. Every track of the frame has an entry in the correlation view and every
  income flag one in the income view; every track that is not missing has an entry in the
  track view, the history view and the math comparison, and every cohort that is not missing
  one in the cohort view, whatever data the group has. A track without any math mark is kept:
  its entries hold the missing value as the mean. On the empty frame the six keyed views have
  no entry and the seven global means are all missing.
\<close>

theorem compute_statistics_total:
  "\<exists>b. compute_statistics df = Inr b \<and>
     (\<forall>r \<in> set df.
        attendance_project_corr_view b (Track r) \<noteq> None \<and>
        income_view b (IncomeStudent r) \<noteq> None \<and>
        (\<not> isna (Track r) \<longrightarrow>
           track_view b (Track r) \<noteq> None \<and> history_by_track_view b (Track r) \<noteq> None \<and>
           math_comparison_view b (Track r) \<noteq> None) \<and>
        (\<not> isna (Cohort r) \<longrightarrow> cohort_view b (Cohort r) \<noteq> None)) \<and>
     (\<forall>r \<in> set df.
        \<not> isna (Track r) \<and> (\<forall>q \<in> set df. Track q = Track r \<longrightarrow> Math q = None) \<longrightarrow>
          (\<exists>st. track_view b (Track r) = Some st \<and> MathAvg st = None) \<and>
          math_comparison_view b (Track r) = Some None) \<and>
     (df = [] \<longrightarrow>
        track_view b = Map.empty \<and> cohort_view b = Map.empty \<and> income_view b = Map.empty \<and>
        history_by_track_view b = Map.empty \<and> math_comparison_view b = Map.empty \<and>
        attendance_project_corr_view b = Map.empty \<and>
        global_view b = \<lparr>Math_mean = None, English_mean = None, Science_mean = None,
          History_mean = None, Attendance_mean = None, ProjectScore_mean = None,
          Passed_mean = None\<rparr>)"
proof -
  define b where "b = \<lparr>track_view = track_stats df, cohort_view = cohort_stats df,
          income_view = income_stats df, history_by_track_view = history_by_track df,
          math_comparison_view = math_comparison df,
          attendance_project_corr_view = corr_list df, global_view = global_stats df\<rparr>"
  have 1: "compute_statistics df = Inr b" by (simp add: compute_statistics_def b_def)
  have key: "groupby (notna_key \<circ> Track) df (Track r) =
               Some (filter (\<lambda>q. (notna_key \<circ> Track) q = Some (Track r)) df)"
    if "r \<in> set df" "\<not> isna (Track r)" for r
  proof -
    have "(notna_key \<circ> Track) r = Some (Track r)" using that(2) by (simp add: notna_key_def)
    from groupby_member [of r df "notna_key \<circ> Track", OF that(1) this] show ?thesis .
  qed
  have 2: "track_view b (Track r) \<noteq> None \<and> history_by_track_view b (Track r) \<noteq> None \<and>
           math_comparison_view b (Track r) \<noteq> None" if "r \<in> set df" "\<not> isna (Track r)" for r
    using key [OF that]
    by (simp add: b_def track_stats_def history_by_track_def math_comparison_def)
  have 3: "cohort_view b (Cohort r) \<noteq> None" if "r \<in> set df" "\<not> isna (Cohort r)" for r
  proof -
    have "(notna_key \<circ> Cohort) r = Some (Cohort r)" using that(2) by (simp add: notna_key_def)
    from groupby_member [of r df "notna_key \<circ> Cohort", OF that(1) this] show ?thesis
      by (simp add: b_def cohort_stats_def)
  qed
  have 4: "income_view b (IncomeStudent r) \<noteq> None" if "r \<in> set df" for r
  proof -
    have "(Some \<circ> IncomeStudent) r = Some (IncomeStudent r)" by simp
    from groupby_member [of r df "Some \<circ> IncomeStudent", OF that this] show ?thesis
      by (simp add: b_def income_stats_def)
  qed
  have 5: "attendance_project_corr_view b (Track r) \<noteq> None" if "r \<in> set df" for r
    using that by (simp add: b_def corr_list_eq)
  have 6: "(\<exists>st. track_view b (Track r) = Some st \<and> MathAvg st = None) \<and>
           math_comparison_view b (Track r) = Some None"
    if "r \<in> set df" "\<not> isna (Track r)" "\<forall>q \<in> set df. Track q = Track r \<longrightarrow> Math q = None"
    for r
  proof -
    let ?g = "filter (\<lambda>q. (notna_key \<circ> Track) q = Some (Track r)) df"
    from that(3) have "\<forall>v \<in> set (map Math ?g). v = None" by (auto simp: notna_key_Some)
    then have "mean (map Math ?g) = None" unfolding mean_spec spec_mean_def by (rule if_P)
    with key [OF that(1,2)] show ?thesis
      by (simp add: b_def track_stats_def math_comparison_def agg_def)
  qed
  have 7: "track_view b = Map.empty \<and> cohort_view b = Map.empty \<and> income_view b = Map.empty \<and>
        history_by_track_view b = Map.empty \<and> math_comparison_view b = Map.empty \<and>
        attendance_project_corr_view b = Map.empty \<and>
        global_view b = \<lparr>Math_mean = None, English_mean = None, Science_mean = None,
          History_mean = None, Attendance_mean = None, ProjectScore_mean = None,
          Passed_mean = None\<rparr>" if "df = []"
    unfolding b_def that
    by (simp add: fun_eq_iff track_stats_def cohort_stats_def income_stats_def
        history_by_track_def math_comparison_def corr_list_def groupby_Nil global_stats_def
        mean_Nil)
  from 1 2 3 4 5 6 7 show ?thesis by blast
qed

text \<open>The example frame: track B has no mark and no pass/fail value, and still has its
  entries, with a missing math mean.\<close>

theorem compute_statistics_total_witness:
  "\<exists>b. compute_statistics example_df = Inr b \<and>
     track_view b (CStr ''B'') \<noteq> None \<and> history_by_track_view b (CStr ''B'') \<noteq> None \<and>
     math_comparison_view b (CStr ''B'') = Some None \<and>
     (\<exists>st. track_view b (CStr ''B'') = Some st \<and> MathAvg st = None) \<and>
     attendance_project_corr_view b (CStr ''B'') \<noteq> None \<and>
     cohort_view b (CStr ''X'') \<noteq> None \<and> income_view b True \<noteq> None"
proof -
  let ?r = "example_df ! 2"
  have r: "?r \<in> set example_df" "Track ?r = CStr ''B''" "Cohort ?r = CStr ''X''"
    "IncomeStudent ?r = True"
    by (simp_all add: example_df_def)
  have n: "\<not> isna (CStr ''B'')" "\<not> isna (CStr ''X'')" by simp_all
  have m: "\<forall>q \<in> set example_df. Track q = CStr ''B'' \<longrightarrow> Math q = None"
    by (simp add: example_df_def)
  from compute_statistics_total [of example_df] obtain b
    where b: "compute_statistics example_df = Inr b"
      and p: "\<forall>r \<in> set example_df.
        attendance_project_corr_view b (Track r) \<noteq> None \<and>
        income_view b (IncomeStudent r) \<noteq> None \<and>
        (\<not> isna (Track r) \<longrightarrow>
           track_view b (Track r) \<noteq> None \<and> history_by_track_view b (Track r) \<noteq> None \<and>
           math_comparison_view b (Track r) \<noteq> None) \<and>
        (\<not> isna (Cohort r) \<longrightarrow> cohort_view b (Cohort r) \<noteq> None)"
      and q: "\<forall>r \<in> set example_df.
        \<not> isna (Track r) \<and> (\<forall>q \<in> set example_df. Track q = Track r \<longrightarrow> Math q = None) \<longrightarrow>
          (\<exists>st. track_view b (Track r) = Some st \<and> MathAvg st = None) \<and>
          math_comparison_view b (Track r) = Some None"
    by blast
  from p r(1) have "attendance_project_corr_view b (Track ?r) \<noteq> None \<and>
        income_view b (IncomeStudent ?r) \<noteq> None \<and>
        (\<not> isna (Track ?r) \<longrightarrow>
           track_view b (Track ?r) \<noteq> None \<and> history_by_track_view b (Track ?r) \<noteq> None \<and>
           math_comparison_view b (Track ?r) \<noteq> None) \<and>
        (\<not> isna (Cohort ?r) \<longrightarrow> cohort_view b (Cohort ?r) \<noteq> None)"
    by (rule bspec)
  with n have 1: "track_view b (CStr ''B'') \<noteq> None \<and>
     history_by_track_view b (CStr ''B'') \<noteq> None \<and>
     attendance_project_corr_view b (CStr ''B'') \<noteq> None \<and>
     cohort_view b (CStr ''X'') \<noteq> None \<and> income_view b True \<noteq> None"
    unfolding r by blast
  from q r(1) have "\<not> isna (Track ?r) \<and>
        (\<forall>q \<in> set example_df. Track q = Track ?r \<longrightarrow> Math q = None) \<longrightarrow>
          (\<exists>st. track_view b (Track ?r) = Some st \<and> MathAvg st = None) \<and>
          math_comparison_view b (Track ?r) = Some None"
    by (rule bspec)
  with n m have 2: "(\<exists>st. track_view b (CStr ''B'') = Some st \<and> MathAvg st = None) \<and>
          math_comparison_view b (CStr ''B'') = Some None"
    unfolding r by blast
  from b 1 2 show ?thesis by blast
qed

text \<open>
  C2. The pass/fail value of a row is decoded from the text of the source cell: the text is
  stripped of surrounding white space and put in upper case, and the result is true exactly
  when that text is \<^verbatim>\<open>Y\<close>, false exactly when it is \<^verbatim>\<open>N\<close>, and missing otherwise. A cell
  that is missing after the replacement of the tokens decodes to a missing value, never to
  false; so does an integer or a boolean cell. For a string cell the value is true exactly
  when the stripped text is \<^verbatim>\<open>Y\<close> or \<^verbatim>\<open>y\<close>, and false exactly when it is \<^verbatim>\<open>N\<close> or
  \<^verbatim>\<open>n\<close>.
\<close>

theorem passed_decoding:
  assumes "clean_row fs name raw = Inr r"
  shows "(Passed r = Some True \<longleftrightarrow>
            upper (strip (astype_str fs (replace (Passed_cell raw)))) = ''Y'') \<and>
         (Passed r = Some False \<longleftrightarrow>
            upper (strip (astype_str fs (replace (Passed_cell raw)))) = ''N'') \<and>
         (isna (replace (Passed_cell raw)) \<longrightarrow> Passed r = None) \<and>
         (\<forall>s. Passed_cell raw = CStr s \<longrightarrow>
            (Passed r = Some True \<longleftrightarrow> strip s = ''Y'' \<or> strip s = ''y'') \<and>
            (Passed r = Some False \<longleftrightarrow> strip s = ''N'' \<or> strip s = ''n'')) \<and>
         (\<forall>i. Passed_cell raw = CInt i \<longrightarrow> Passed r = None) \<and>
         (\<forall>b. Passed_cell raw = CBool b \<longrightarrow> Passed r = None)"
proof -
  have p: "Passed r = map_passed fs (replace (Passed_cell raw))"
    using clean_row_fields(9) [OF assms] .
  have 1: "(Passed r = Some True \<longleftrightarrow>
            upper (strip (astype_str fs (replace (Passed_cell raw)))) = ''Y'') \<and>
         (Passed r = Some False \<longleftrightarrow>
            upper (strip (astype_str fs (replace (Passed_cell raw)))) = ''N'')"
    unfolding p by (simp add: map_passed_eq)
  have 2: "isna (replace (Passed_cell raw)) \<longrightarrow> Passed r = None"
    unfolding p by (simp add: map_passed_na)
  have 3: "(Passed r = Some True \<longleftrightarrow> strip s = ''Y'' \<or> strip s = ''y'') \<and>
           (Passed r = Some False \<longleftrightarrow> strip s = ''N'' \<or> strip s = ''n'')"
    if "Passed_cell raw = CStr s" for s
    unfolding p that by (rule map_passed_str)
  have 4: "Passed r = None" if "Passed_cell raw = CInt i" for i
    unfolding p that by (simp add: replace_cases map_passed_int)
  have 5: "Passed r = None" if "Passed_cell raw = CBool b" for b
    unfolding p that by (simp add: replace_cases map_passed_bool)
  from 1 2 3 4 5 show ?thesis by blast
qed

text \<open>The example row: its pass/fail cell holds \<^verbatim>\<open>" y"\<close>, which decodes to true.\<close>

theorem passed_decoding_witness:
  "clean_row example_float_str ''A'' example_row =
     Inr \<lparr>Track = CStr ''A'', Math = Some 80, English = Some 75.5, Science = None,
          History = Some 62, Attendance = Some 91, ProjectScore = None, IncomeStudent = False,
          Passed = Some True, Cohort = CStr ''2024''\<rparr> \<and>
   Passed_cell example_row = CStr '' y'' \<and> strip '' y'' = ''y'' \<and>
   upper (strip (astype_str example_float_str (replace (Passed_cell example_row)))) = ''Y''"
proof -
  let ?r = "\<lparr>Track = CStr ''A'', Math = Some 80, English = Some 75.5, Science = None,
          History = Some 62, Attendance = Some 91, ProjectScore = None, IncomeStudent = False,
          Passed = Some True, Cohort = CStr ''2024''\<rparr>"
  have "Passed ?r = Some True \<longleftrightarrow>
          upper (strip (astype_str example_float_str (replace (Passed_cell example_row)))) = ''Y''"
    using passed_decoding [OF example_row_clean] by blast
  then have "upper (strip (astype_str example_float_str (replace (Passed_cell example_row)))) = ''Y''"
    by simp
  moreover have "Passed_cell example_row = CStr '' y''" "strip '' y'' = ''y''"
    by (simp_all add: example_row_def strip_def isspace_def)
  ultimately show ?thesis using example_row_clean by simp
qed

text \<open>
  C3. In the track, cohort and income views the pass rate of a group is the mean of its
  pass/fail values that are present: the number of passes divided by the number of values
  present, and missing when none is present. Each of the six means is the sum of the values
  present divided by their number, and missing when the group has no value in that column.
  The entry of key \<open>k\<close> is computed from the rows of the frame that carry \<open>k\<close>.
\<close>

theorem group_means_skip_missing:
  assumes "compute_statistics df = Inr b"
  shows "(track_view b k = Some st \<longrightarrow> means_as_specified st (filter (\<lambda>r. Track r = k) df)) \<and>
         (cohort_view b k = Some st \<longrightarrow> means_as_specified st (filter (\<lambda>r. Cohort r = k) df)) \<and>
         (income_view b i = Some st \<longrightarrow> means_as_specified st (filter (\<lambda>r. IncomeStudent r = i) df))"
  using track_stats_Some [of df k st] cohort_stats_Some [of df k st] income_stats_Some [of df i st]
  by (auto simp: compute_statistics_views [OF assms] agg_means_as_specified)

text \<open>The example frame: track A has one pass out of two values, the rows of cohort X have
  one value and it is a pass, the rows with the income flag have one value and it is a fail,
  and track B has no pass/fail value and no math mark.\<close>

theorem group_means_skip_missing_witness:
  "\<exists>b. compute_statistics example_df = Inr b \<and>
     (\<exists>st. track_view b (CStr ''A'') = Some st \<and> PassRate st = Some (1 / 2) \<and>
           MathAvg st = Some 85) \<and>
     (\<exists>st. cohort_view b (CStr ''X'') = Some st \<and> PassRate st = Some 1) \<and>
     (\<exists>st. income_view b True = Some st \<and> PassRate st = Some 0) \<and>
     (\<exists>st. track_view b (CStr ''B'') = Some st \<and> PassRate st = None \<and> MathAvg st = None)"
proof -
  let ?b = "\<lparr>track_view = track_stats example_df, cohort_view = cohort_stats example_df,
          income_view = income_stats example_df,
          history_by_track_view = history_by_track example_df,
          math_comparison_view = math_comparison example_df,
          attendance_project_corr_view = corr_list example_df,
          global_view = global_stats example_df\<rparr>"
  have a: "track_view ?b (CStr ''A'') = Some (agg (filter (\<lambda>r. Track r = CStr ''A'') example_df))"
    by (simp add: track_stats_def groupby_def notna_key_def example_df_def)
  have b: "track_view ?b (CStr ''B'') = Some (agg (filter (\<lambda>r. Track r = CStr ''B'') example_df))"
    by (simp add: track_stats_def groupby_def notna_key_def example_df_def)
  have x: "cohort_view ?b (CStr ''X'') = Some (agg (filter (\<lambda>r. Cohort r = CStr ''X'') example_df))"
    by (simp add: cohort_stats_def groupby_def notna_key_def example_df_def)
  have i: "income_view ?b True = Some (agg (filter (\<lambda>r. IncomeStudent r = True) example_df))"
    by (simp add: income_stats_def groupby_def example_df_def)
  have "means_as_specified (agg (filter (\<lambda>r. Track r = CStr ''A'') example_df))
          (filter (\<lambda>r. Track r = CStr ''A'') example_df)"
    using group_means_skip_missing [OF example_stats, of "CStr ''A''"] a by blast
  then have 1: "PassRate (agg (filter (\<lambda>r. Track r = CStr ''A'') example_df)) = Some (1 / 2) \<and>
        MathAvg (agg (filter (\<lambda>r. Track r = CStr ''A'') example_df)) = Some 85"
    by (simp add: means_as_specified_def spec_pass_rate_def spec_mean_def example_df_def del: not_None_eq)
  have "means_as_specified (agg (filter (\<lambda>r. Track r = CStr ''B'') example_df))
          (filter (\<lambda>r. Track r = CStr ''B'') example_df)"
    using group_means_skip_missing [OF example_stats, of "CStr ''B''"] b by blast
  then have 2: "PassRate (agg (filter (\<lambda>r. Track r = CStr ''B'') example_df)) = None \<and>
        MathAvg (agg (filter (\<lambda>r. Track r = CStr ''B'') example_df)) = None"
    by (simp add: means_as_specified_def spec_pass_rate_def spec_mean_def example_df_def del: not_None_eq)
  have "means_as_specified (agg (filter (\<lambda>r. Cohort r = CStr ''X'') example_df))
          (filter (\<lambda>r. Cohort r = CStr ''X'') example_df)"
    using group_means_skip_missing [OF example_stats, of "CStr ''X''"] x by blast
  then have 3: "PassRate (agg (filter (\<lambda>r. Cohort r = CStr ''X'') example_df)) = Some 1"
    by (simp add: means_as_specified_def spec_pass_rate_def spec_mean_def example_df_def del: not_None_eq)
  have "means_as_specified (agg (filter (\<lambda>r. IncomeStudent r = True) example_df))
          (filter (\<lambda>r. IncomeStudent r = True) example_df)"
    using group_means_skip_missing [OF example_stats, of _ _ True] i by blast
  then have 4: "PassRate (agg (filter (\<lambda>r. IncomeStudent r = True) example_df)) = Some 0"
    by (simp add: means_as_specified_def spec_pass_rate_def spec_mean_def example_df_def del: not_None_eq)
  show ?thesis
    apply (rule exI [of _ ?b])
    using example_stats a b x i 1 2 3 4 by simp
qed

text \<open>
  C4. Per-cell coercion is said never to raise. The income flag breaks this: a flag cell
  holding one of the four tokens is replaced by \<^verbatim>\<open>pd.NA\<close>, and \<^verbatim>\<open>astype(bool)\<close> on it
  raises \<open>TypeError\<close>, so the whole load fails. The numeric columns and the pass/fail column
  turn the same cell into a missing value.
\<close>

theorem load_raises_on_waived_income:
  "load_and_clean_excel fs
     [(''A'', [example_row, example_row\<lparr>IncomeStudent_cell := CStr ''Waived''\<rparr>])] = Inl TypeError"
  by (simp add: eval_defs example_row_def)

text \<open>
  C5. The math comparison is the \<open>MathAvg\<close> column of the track view: both have an entry for
  the same tracks, and for every track of the frame the two values are equal.
\<close>

theorem math_comparison_is_track_MathAvg:
  assumes "compute_statistics df = Inr b"
  shows "(\<forall>g. math_comparison_view b g = map_option MathAvg (track_view b g)) \<and>
         (\<forall>r \<in> set df. \<not> isna (Track r) \<longrightarrow>
            (\<exists>st. track_view b (Track r) = Some st \<and>
                  math_comparison_view b (Track r) = Some (MathAvg st)))"
proof -
  have eq: "math_comparison df g = map_option MathAvg (track_stats df g)" for g
    by (simp add: math_comparison_def track_stats_def agg_def option.map_comp comp_def)
  have ex: "\<exists>st. track_stats df (Track r) = Some st" if "r \<in> set df" "\<not> isna (Track r)" for r
  proof -
    have "(notna_key \<circ> Track) r = Some (Track r)" using that(2) by (simp add: notna_key_def)
    from groupby_member [of r df "notna_key \<circ> Track", OF that(1) this] show ?thesis
      by (simp add: track_stats_def)
  qed
  have "\<exists>st. track_stats df (Track r) = Some st \<and>
              math_comparison df (Track r) = Some (MathAvg st)"
    if "r \<in> set df" "\<not> isna (Track r)" for r
  proof -
    from ex [OF that] obtain st where "track_stats df (Track r) = Some st" ..
    then show ?thesis by (simp add: eq)
  qed
  then show ?thesis
    unfolding compute_statistics_views [OF assms] using eq by blast
qed

text \<open>The example frame: 85 for track A and a missing mean for track B, in both views.\<close>

theorem math_comparison_is_track_MathAvg_witness:
  "\<exists>b. compute_statistics example_df = Inr b \<and>
     (\<exists>st. track_view b (CStr ''A'') = Some st \<and> MathAvg st = Some 85 \<and>
           math_comparison_view b (CStr ''A'') = Some (Some 85)) \<and>
     (\<exists>st. track_view b (CStr ''B'') = Some st \<and> MathAvg st = None \<and>
           math_comparison_view b (CStr ''B'') = Some None)"
proof -
  let ?b = "\<lparr>track_view = track_stats example_df, cohort_view = cohort_stats example_df,
          income_view = income_stats example_df,
          history_by_track_view = history_by_track example_df,
          math_comparison_view = math_comparison example_df,
          attendance_project_corr_view = corr_list example_df,
          global_view = global_stats example_df\<rparr>"
  have a: "\<exists>st. track_view ?b (CStr ''A'') = Some st \<and> MathAvg st = Some 85"
    by (simp add: track_stats_def groupby_def notna_key_def example_df_def agg_def mean_def
        List.map_filter_simps)
  have b: "\<exists>st. track_view ?b (CStr ''B'') = Some st \<and> MathAvg st = None"
    by (simp add: track_stats_def groupby_def notna_key_def example_df_def agg_def mean_def
        List.map_filter_simps)
  have "\<forall>g. math_comparison_view ?b g = map_option MathAvg (track_view ?b g)"
    using math_comparison_is_track_MathAvg [OF example_stats] by blast
  then have "math_comparison_view ?b (CStr ''A'') = map_option MathAvg (track_view ?b (CStr ''A''))"
    "math_comparison_view ?b (CStr ''B'') = map_option MathAvg (track_view ?b (CStr ''B''))"
    by blast+
  with a b have "(\<exists>st. track_view ?b (CStr ''A'') = Some st \<and> MathAvg st = Some 85 \<and>
           math_comparison_view ?b (CStr ''A'') = Some (Some 85)) \<and>
     (\<exists>st. track_view ?b (CStr ''B'') = Some st \<and> MathAvg st = None \<and>
           math_comparison_view ?b (CStr ''B'') = Some None)"
    by (metis option.simps(9))
  with example_stats show ?thesis by blast
qed

text \<open>
  C6. For every track of the frame that is not missing, the correlation view holds Pearson's
  coefficient of attendance and project score over the rows of that track in which both are
  present. When fewer than two such rows exist, or all their attendance values are equal, or
  all their project scores are equal, the entry is the missing value: it is neither an
  exception nor zero.
\<close>

theorem correlation_by_track:
  assumes "compute_statistics df = Inr b" and "r \<in> set df" and "\<not> isna (Track r)"
  shows "attendance_project_corr_view b (Track r) =
           Some (if length (complete_pairs df (Track r)) < 2 \<or>
                    all_equal (map fst (complete_pairs df (Track r))) \<or>
                    all_equal (map snd (complete_pairs df (Track r)))
                 then None
                 else Some (pearson (complete_pairs df (Track r))))"
proof -
  from assms(1) have "attendance_project_corr_view b = corr_list df"
    by (auto simp: compute_statistics_def)
  moreover from assms(2) have "corr_list df (Track r) = Some (corr (subdf df (Track r)))"
    by (simp add: corr_list_eq)
  ultimately show ?thesis
    by (simp add: corr_eq Let_def subdf_pairs [OF assms(3)])
qed

text \<open>The example frame: the two complete rows of track A are perfectly opposed, and track
  B has one complete row only.\<close>

theorem correlation_by_track_witness:
  "\<exists>b. compute_statistics example_df = Inr b \<and>
     complete_pairs example_df (CStr ''A'') = [(90, 50), (80, 70)] \<and>
     attendance_project_corr_view b (CStr ''A'') = Some (Some (- 1)) \<and>
     complete_pairs example_df (CStr ''B'') = [(85, 45)] \<and>
     attendance_project_corr_view b (CStr ''B'') = Some None"
proof -
  let ?b = "\<lparr>track_view = track_stats example_df, cohort_view = cohort_stats example_df,
          income_view = income_stats example_df,
          history_by_track_view = history_by_track example_df,
          math_comparison_view = math_comparison example_df,
          attendance_project_corr_view = corr_list example_df,
          global_view = global_stats example_df\<rparr>"
  have a: "example_df ! 0 \<in> set example_df" "Track (example_df ! 0) = CStr ''A''"
    and b: "example_df ! 2 \<in> set example_df" "Track (example_df ! 2) = CStr ''B''"
    by (simp_all add: example_df_def)
  have "attendance_project_corr_view ?b (CStr ''A'') = Some (Some (- 1))"
    using correlation_by_track [OF example_stats a(1)] unfolding a(2) example_pairs
    by (simp add: all_equal_def example_pearson)
  moreover have "attendance_project_corr_view ?b (CStr ''B'') = Some None"
    using correlation_by_track [OF example_stats b(1)] unfolding b(2) example_pairs
    by simp
  ultimately show ?thesis using example_stats example_pairs by blast
qed

text \<open>
  C7. Every row is said to carry the label of its sheet as a track that is not missing. The
  label is written before the four tokens are replaced in every column, so the rows of a sheet
  named \<^verbatim>\<open>NA\<close> come out with a missing track.
\<close>

theorem track_of_sheet_named_NA:
  "load_and_clean_excel fs [(''NA'', [example_row])] =
     Inr [\<lparr>Track = CNA, Math = Some 80, English = Some 75.5, Science = None, History = Some 62,
           Attendance = Some 91, ProjectScore = None, IncomeStudent = False,
           Passed = Some True, Cohort = CStr ''2024''\<rparr>]"
  by (simp add: eval_defs example_row_def)

text \<open>
  C8. The income flag is said to become the truth value of the source value, without
  raising. The values 0 and \<^verbatim>\<open>"yes"\<close> do; a flag of \<^verbatim>\<open>"Waived"\<close> is replaced by
  \<^verbatim>\<open>pd.NA\<close>, which has no truth value, and the conversion raises \<open>TypeError\<close>.
\<close>

theorem income_flag_values:
  "astype_bool (replace (CInt 0)) = Inr False \<and>
   astype_bool (replace (CStr ''yes'')) = Inr True \<and>
   astype_bool (replace (CStr ''Waived'')) = Inl TypeError"
  by (simp add: replace_def)

text \<open>
  C9. Numeric coercion is said to give back every value that is numeric already. The
  pattern has no sign: the integer -5 is written \<^verbatim>\<open>-5\<close>, the match is \<^verbatim>\<open>5\<close>, and the cell
  comes back as 5.
\<close>

theorem negative_number_loses_sign:
  "coerce_numeric example_float_str (CInt (- 5)) = Some 5 \<and>
   coerce_numeric example_float_str (CInt (- 5)) \<noteq> Some (- 5)"
  by (simp add: eval_defs)

text \<open>
  C9, as the code has it. Coercing an integer that is not negative gives the same value;
  coercing a negative integer gives the value without its sign. Coercing a float gives the
  same value when Python writes it as digits, a point and digits that denote it. Coercing NaN
  or \<^verbatim>\<open>pd.NA\<close> gives a missing value.
\<close>

theorem numeric_coercion_on_numbers:
  "(0 \<le> n \<longrightarrow> coerce_numeric fs (CInt n) = Some (of_int n)) \<and>
   (n < 0 \<longrightarrow> coerce_numeric fs (CInt n) = Some (- of_int n)) \<and>
   (ip \<noteq> [] \<and> list_all isdigit ip \<and> list_all isdigit fp \<and> fs x = ip @ CHR ''.'' # fp \<and>
    x = real (nat_of_digits ip) + real (nat_of_digits fp) / 10 ^ length fp \<longrightarrow>
      coerce_numeric fs (CFloat x) = Some x) \<and>
   coerce_numeric fs CNaN = None \<and> coerce_numeric fs CNA = None"
proof -
  have 1: "0 \<le> n \<longrightarrow> coerce_numeric fs (CInt n) = Some (of_int n)"
    and 2: "n < 0 \<longrightarrow> coerce_numeric fs (CInt n) = Some (- of_int n)"
    by (simp_all add: coerce_numeric_int)
  have 3: "coerce_numeric fs (CFloat x) = Some x"
    if "ip \<noteq> []" "list_all isdigit ip" "list_all isdigit fp" "fs x = ip @ CHR ''.'' # fp"
      "x = real (nat_of_digits ip) + real (nat_of_digits fp) / 10 ^ length fp"
    using coerce_numeric_digits(3) [OF that(1,2,3), of fs "CFloat x"] that(4,5) by simp
  have 4: "coerce_numeric fs CNaN = None" "coerce_numeric fs CNA = None"
    by (simp_all add: coerce_numeric_None_iff isdigit_def)
  from 1 2 3 4 show ?thesis by blast
qed

text \<open>The integers 80 and -7, the float 85.5 and the two missing values.\<close>

theorem numeric_coercion_on_numbers_witness:
  "coerce_numeric example_float_str (CInt 80) = Some 80 \<and>
   coerce_numeric example_float_str (CInt (- 7)) = Some 7 \<and>
   example_float_str 85.5 = ''85.5'' \<and>
   coerce_numeric example_float_str (CFloat 85.5) = Some 85.5 \<and>
   coerce_numeric example_float_str CNaN = None \<and> coerce_numeric example_float_str CNA = None"
proof -
  have f: "example_float_str 85.5 = ''85'' @ CHR ''.'' # ''5''"
    by (simp add: example_float_str_def)
  have v: "(85.5::real) = real (nat_of_digits ''85'') + real (nat_of_digits ''5'') / 10 ^ length ''5''"
    by (simp add: nat_of_digits_def digit_val_def)
  have d: "''85'' \<noteq> []" "list_all isdigit ''85''" "list_all isdigit ''5''"
    by (simp_all add: isdigit_def)
  have "''85'' \<noteq> [] \<and> list_all isdigit ''85'' \<and> list_all isdigit ''5'' \<and>
        example_float_str 85.5 = ''85'' @ CHR ''.'' # ''5'' \<and>
        (85.5::real) =
          real (nat_of_digits ''85'') + real (nat_of_digits ''5'') / 10 ^ length ''5'' \<longrightarrow>
        coerce_numeric example_float_str (CFloat 85.5) = Some 85.5"
    using numeric_coercion_on_numbers [of 80 example_float_str "''85''" "''5''" "85.5"] by blast
  with f v d have 1: "coerce_numeric example_float_str (CFloat 85.5) = Some 85.5" by blast
  from numeric_coercion_on_numbers [of 80 example_float_str "''85''" "''5''" "85.5"]
  have 2: "coerce_numeric example_float_str (CInt 80) = Some 80 \<and>
        coerce_numeric example_float_str CNaN = None \<and> coerce_numeric example_float_str CNA = None"
    by simp
  from numeric_coercion_on_numbers [of "- 7" example_float_str "''85''" "''5''" "85.5"]
  have 3: "coerce_numeric example_float_str (CInt (- 7)) = Some 7" by simp
  from 1 2 3 show ?thesis by (simp add: example_float_str_def)
qed

text \<open>
  C10. In every row of the loader's frame each of the six numeric fields is missing or not
  negative. The coerced value of any cell is missing or not negative; characters before the
  first digit, a minus sign among them, do not change it; and the text the pattern extracts
  lies in the cell's text after characters that are no digits, and is a run of digits, or a
  run of digits, a point and a run of digits.
\<close>

theorem numeric_fields_nonnegative:
  assumes "load_and_clean_excel fs sheets = Inr df" and "r \<in> set df"
  shows "(\<forall>v. Math r = Some v \<longrightarrow> 0 \<le> v) \<and> (\<forall>v. English r = Some v \<longrightarrow> 0 \<le> v) \<and>
         (\<forall>v. Science r = Some v \<longrightarrow> 0 \<le> v) \<and> (\<forall>v. History r = Some v \<longrightarrow> 0 \<le> v) \<and>
         (\<forall>v. Attendance r = Some v \<longrightarrow> 0 \<le> v) \<and> (\<forall>v. ProjectScore r = Some v \<longrightarrow> 0 \<le> v) \<and>
         (\<forall>c v. coerce_numeric fs c = Some v \<longrightarrow> 0 \<le> v) \<and>
         (\<forall>pre s. (\<forall>ch \<in> set pre. \<not> isdigit ch) \<longrightarrow>
            coerce_numeric fs (CStr (pre @ s)) = coerce_numeric fs (CStr s)) \<and>
         (\<forall>s t. str_extract s = Some t \<longrightarrow>
            (\<exists>pre ip post. s = pre @ t @ post \<and> (\<forall>ch \<in> set pre. \<not> isdigit ch) \<and>
               ip \<noteq> [] \<and> list_all isdigit ip \<and>
               (t = ip \<or> (\<exists>fp. list_all isdigit fp \<and> t = ip @ CHR ''.'' # fp))))"
proof -
  from load_rows [OF assms] obtain sheet :: "string \<times> sheet_row list" and raw
    where "clean_row fs (fst sheet) raw = Inr r"
    by blast
  note f = clean_row_fields [OF this]
  have n: "\<forall>c v. coerce_numeric fs c = Some v \<longrightarrow> 0 \<le> v"
    using coerce_numeric_nonneg by blast
  have p: "\<forall>pre s. (\<forall>ch \<in> set pre. \<not> isdigit ch) \<longrightarrow>
            coerce_numeric fs (CStr (pre @ s)) = coerce_numeric fs (CStr s)"
    by (simp add: coerce_numeric_def str_extract_prefix)
  have s: "\<forall>s t. str_extract s = Some t \<longrightarrow>
            (\<exists>pre ip post. s = pre @ t @ post \<and> (\<forall>ch \<in> set pre. \<not> isdigit ch) \<and>
               ip \<noteq> [] \<and> list_all isdigit ip \<and>
               (t = ip \<or> (\<exists>fp. list_all isdigit fp \<and> t = ip @ CHR ''.'' # fp)))"
    using str_extract_shape by blast
  from n have "(\<forall>v. Math r = Some v \<longrightarrow> 0 \<le> v) \<and> (\<forall>v. English r = Some v \<longrightarrow> 0 \<le> v) \<and>
         (\<forall>v. Science r = Some v \<longrightarrow> 0 \<le> v) \<and> (\<forall>v. History r = Some v \<longrightarrow> 0 \<le> v) \<and>
         (\<forall>v. Attendance r = Some v \<longrightarrow> 0 \<le> v) \<and> (\<forall>v. ProjectScore r = Some v \<longrightarrow> 0 \<le> v)"
    unfolding f(2-7) by blast
  with n p s show ?thesis by blast
qed

text \<open>The example row loaded as a sheet, and a cell whose number follows a word and a minus
  sign.\<close>

theorem numeric_fields_nonnegative_witness:
  "load_and_clean_excel example_float_str [(''A'', [example_row])] =
     Inr [\<lparr>Track = CStr ''A'', Math = Some 80, English = Some 75.5, Science = None,
           History = Some 62, Attendance = Some 91, ProjectScore = None, IncomeStudent = False,
           Passed = Some True, Cohort = CStr ''2024''\<rparr>] \<and>
   (0::real) \<le> 75.5 \<and>
   coerce_numeric example_float_str (CStr ''about -12.5 %'') = Some 12.5"
proof -
  let ?r = "\<lparr>Track = CStr ''A'', Math = Some 80, English = Some 75.5, Science = None,
           History = Some 62, Attendance = Some 91, ProjectScore = None, IncomeStudent = False,
           Passed = Some True, Cohort = CStr ''2024''\<rparr>"
  have m: "?r \<in> set [?r]" by simp
  note t = numeric_fields_nonnegative [OF example_load m]
  from t have "\<forall>v. English ?r = Some v \<longrightarrow> 0 \<le> v" by blast
  then have 1: "(0::real) \<le> 75.5" by simp
  from t have "\<forall>pre s. (\<forall>ch \<in> set pre. \<not> isdigit ch) \<longrightarrow>
            coerce_numeric example_float_str (CStr (pre @ s)) = coerce_numeric example_float_str (CStr s)"
    by blast
  then have "(\<forall>ch \<in> set ''about -''. \<not> isdigit ch) \<longrightarrow>
      coerce_numeric example_float_str (CStr (''about -'' @ ''12.5 %'')) =
      coerce_numeric example_float_str (CStr ''12.5 %'')"
    by blast
  moreover have "\<forall>ch \<in> set ''about -''. \<not> isdigit ch" by (simp add: isdigit_def)
  ultimately have "coerce_numeric example_float_str (CStr (''about -'' @ ''12.5 %'')) =
      coerce_numeric example_float_str (CStr ''12.5 %'')"
    by blast
  moreover have "coerce_numeric example_float_str (CStr ''12.5 %'') = Some 12.5"
    by (simp add: eval_defs)
  ultimately have 2: "coerce_numeric example_float_str (CStr ''about -12.5 %'') = Some 12.5"
    by simp
  from example_load 1 2 show ?thesis by blast
qed

end
